theory Spec2Isabelle
  imports Main
begin

section \<open>The review API of Server/server.js\<close>

text \<open>
  The three review routes of the server are embedded here: the creation of a review
  (\<^verbatim>\<open>POST /api/reviews\<close>), the usefulness vote that keeps one entry per user
  (\<^verbatim>\<open>POST /api/reviews/usefulness\<close>), and the plain tally increment
  (\<^verbatim>\<open>POST /api/reviews/:id/vote\<close>). Each handler is a function from the request and
  the collection of stored reviews to the answer and the collection afterwards.
\<close>

subsection \<open>The review document\<close>

text \<open>
  \<open>userVotes\<close> is a JavaScript \<^verbatim>\<open>Map\<close> from user identifiers to the strings the
  handler stores in it. It is a list of entries in insertion order, read through the
  three methods the handler calls. Counters are JavaScript numbers; they are integers here
  (the handlers only add and subtract 1, which is exact below \<open>2 ^ 53\<close>).
\<close>

record review =
  ident :: string
  title :: string
  content :: string
  rating :: int
  productName :: string
  reviewType :: string
  thumbsUp :: int
  thumbsDown :: int
  userVotes :: "(string \<times> string) list"

text \<open>\<^verbatim>\<open>Map.prototype.get\<close>: the value of the entry of a key, \<open>None\<close> for \<^verbatim>\<open>undefined\<close>.\<close>

fun Map_get :: "string \<Rightarrow> (string \<times> string) list \<Rightarrow> string option" where
  "Map_get k [] = None"
| "Map_get k ((k', v') # m) = (if k' = k then Some v' else Map_get k m)"

text \<open>
  \<^verbatim>\<open>Map.prototype.set\<close>: the entry of a key that is present is overwritten where it
  stands, a new key is appended.
\<close>

fun Map_set :: "string \<Rightarrow> string \<Rightarrow> (string \<times> string) list \<Rightarrow> (string \<times> string) list" where
  "Map_set k v [] = [(k, v)]"
| "Map_set k v ((k', v') # m) = (if k' = k then (k, v) # m else (k', v') # Map_set k v m)"

text \<open>\<^verbatim>\<open>Map.prototype.delete\<close>: no entry of the key is left.\<close>

fun Map_delete :: "string \<Rightarrow> (string \<times> string) list \<Rightarrow> (string \<times> string) list" where
  "Map_delete k [] = []"
| "Map_delete k ((k', v') # m) = (if k' = k then Map_delete k m else (k', v') # Map_delete k m)"

text \<open>
  The number of entries of a map that hold a given value. A key has one entry in a map,
  the one \<open>Map_get\<close> reads, so the entries are counted key by key.
\<close>

definition count :: "string \<Rightarrow> (string \<times> string) list \<Rightarrow> nat" where
  "count v m = length (filter (\<lambda>k. Map_get k m = Some v) (remdups (map fst m)))"

text \<open>The invariant of the data model: each counter is the number of votes of its kind.\<close>

definition count_inv :: "review \<Rightarrow> bool" where
  "count_inv review \<longleftrightarrow>
     thumbsUp review = int (count ''like'' (userVotes review)) \<and>
     thumbsDown review = int (count ''dislike'' (userVotes review))"

definition non_negative :: "review \<Rightarrow> bool" where
  "non_negative review \<longleftrightarrow> 0 \<le> thumbsUp review \<and> 0 \<le> thumbsDown review"

subsection \<open>Requests, answers and the store\<close>

text \<open>
  The fields of a JSON body are read as strings, and the rating as an integer; a field
  is absent (\<open>None\<close>, \<^verbatim>\<open>undefined\<close>) or holds a value. The negation \<^verbatim>\<open>!x\<close> of
  JavaScript holds of an absent field, of the empty string and of the number 0.
\<close>

definition falsy :: "string option \<Rightarrow> bool" where
  "falsy x \<longleftrightarrow> (case x of None \<Rightarrow> True | Some s \<Rightarrow> s = [])"

definition falsy_number :: "int option \<Rightarrow> bool" where
  "falsy_number x \<longleftrightarrow> (case x of None \<Rightarrow> True | Some n \<Rightarrow> n = 0)"

text \<open>\<^verbatim>\<open>Array.prototype.includes\<close> on an array of strings.\<close>

definition Array_includes :: "string list \<Rightarrow> string option \<Rightarrow> bool" where
  "Array_includes xs x \<longleftrightarrow> (case x of None \<Rightarrow> False | Some s \<Rightarrow> s \<in> set xs)"

text \<open>The error answers of the three handlers, named by the message each one sends.\<close>

datatype failure =
    Missing_required_fields
  | Failed_to_save_review
  | Invalid_input
  | Review_not_found
  | No_vote_to_remove
  | Failed_to_update_review_usefulness
  | Invalid_vote_type
  | Failed_to_update_vote

fun status :: "failure \<Rightarrow> nat" where
  "status Missing_required_fields = 400"
| "status Failed_to_save_review = 400"
| "status Invalid_input = 400"
| "status Review_not_found = 404"
| "status No_vote_to_remove = 400"
| "status Failed_to_update_review_usefulness = 500"
| "status Invalid_vote_type = 400"
| "status Failed_to_update_vote = 500"

text \<open>
  The kinds of error of the specification's taxonomy, and the kind of each answer: a
  rejected action, vote type or missing field is \<open>InvalidInput\<close>, an unknown review is
  \<open>NotFound\<close>, a removal without a vote is \<open>NothingToRemove\<close>; the answers of the
  \<^verbatim>\<open>catch\<close> blocks report a failure of the storage layer.
\<close>

datatype error_kind = InvalidInput | NotFound | NothingToRemove | StorageFailure

fun kind :: "failure \<Rightarrow> error_kind" where
  "kind Missing_required_fields = InvalidInput"
| "kind Failed_to_save_review = StorageFailure"
| "kind Invalid_input = InvalidInput"
| "kind Review_not_found = NotFound"
| "kind No_vote_to_remove = NothingToRemove"
| "kind Failed_to_update_review_usefulness = StorageFailure"
| "kind Invalid_vote_type = InvalidInput"
| "kind Failed_to_update_vote = StorageFailure"

text \<open>
  The stored reviews are the documents of the collection. \<^verbatim>\<open>Review.findById\<close>
  answers the document with the given identifier, and \<^verbatim>\<open>null\<close> when there is
  none or when the identifier is \<^verbatim>\<open>undefined\<close>. \<^verbatim>\<open>save\<close> on a document that
  was read from the collection replaces the stored document of the same identifier; on a
  new document it inserts it.
\<close>

type_synonym store = "review list"

definition findById :: "string option \<Rightarrow> store \<Rightarrow> review option" where
  "findById reviewId db =
     (case reviewId of None \<Rightarrow> None | Some i \<Rightarrow> find (\<lambda>r. ident r = i) db)"

definition save :: "review \<Rightarrow> store \<Rightarrow> store" where
  "save review db = map (\<lambda>r. if ident r = ident review then review else r) db"

definition save_new :: "review \<Rightarrow> store \<Rightarrow> store" where
  "save_new review db = db @ [review]"

text \<open>
  The calls into the storage layer can raise, which the \<^verbatim>\<open>catch\<close> block of each
  handler answers. Whether they do is not decided by the request, so it is an input of the
  model: the storage layer responds to every call, or the read raises, or the write raises.
\<close>

datatype storage = Responds | Read_throws | Write_throws

subsection \<open>POST /api/reviews\<close>

text \<open>
  Modelled from the spec: the constructor of the \<^verbatim>\<open>Review\<close> model
  (\<^verbatim>\<open>./models/Review\<close>), whose schema is not part of the sources. The specification's
  data model gives the fields the handler does not pass: both counters are initialized to
  0 and \<open>userVotes\<close> has no entry. The identifier is assigned at creation; it is a parameter.
\<close>

definition new_Review :: "string \<Rightarrow> string \<Rightarrow> string \<Rightarrow> int \<Rightarrow> string \<Rightarrow> string \<Rightarrow> review" where
  "new_Review newId title' content' rating' productName' reviewType' =
     \<lparr>ident = newId, title = title', content = content', rating = rating',
      productName = productName', reviewType = reviewType',
      thumbsUp = 0, thumbsDown = 0, userVotes = []\<rparr>"

definition post_reviews ::
  "storage \<Rightarrow> string \<Rightarrow> string option \<Rightarrow> string option \<Rightarrow> int option \<Rightarrow> string option \<Rightarrow>
     store \<Rightarrow> (failure + review) \<times> store" where
  "post_reviews io newId title' content' rating' product db =
     (if falsy title' \<or> falsy content' \<or> falsy_number rating' \<or> falsy product
      then (Inl Missing_required_fields, db)
      else
        let newReview = new_Review newId (the title') (the content') (the rating')
                          (the product) ''product''
        in if io = Write_throws then (Inl Failed_to_save_review, db)
           else (Inr newReview, save_new newReview db))"

subsection \<open>POST /api/reviews/usefulness\<close>

text \<open>
  The handler repeats one ladder on a vote value, \<^verbatim>\<open>if (v === 'like') ... else if
  (v === 'dislike') ...\<close>, to take 1 from the counter of the value or to add 1 to it.
  A value that is neither string changes no counter. The value is the string of an entry
  or of the request, or \<^verbatim>\<open>undefined\<close>.
\<close>

definition decrement :: "string option \<Rightarrow> review \<Rightarrow> review" where
  "decrement v review =
     (if v = Some ''like'' then review\<lparr>thumbsUp := thumbsUp review - 1\<rparr>
      else if v = Some ''dislike'' then review\<lparr>thumbsDown := thumbsDown review - 1\<rparr>
      else review)"

definition increment :: "string option \<Rightarrow> review \<Rightarrow> review" where
  "increment v review =
     (if v = Some ''like'' then review\<lparr>thumbsUp := thumbsUp review + 1\<rparr>
      else if v = Some ''dislike'' then review\<lparr>thumbsDown := thumbsDown review + 1\<rparr>
      else review)"

text \<open>
  The branches of the handler between the read of the document and its write: the
  document after the vote, or the answer that leaves before the write.
\<close>

definition usefulness_update :: "string \<Rightarrow> string \<Rightarrow> review \<Rightarrow> failure + review" where
  "usefulness_update userUUID type review =
     (let currentVote = Map_get userUUID (userVotes review) in
      if type = ''remove'' then
        (if falsy currentVote then Inl No_vote_to_remove
         else
           let review = decrement currentVote review
           in Inr (review\<lparr>userVotes := Map_delete userUUID (userVotes review)\<rparr>))
      else if \<not> falsy currentVote then
        (if currentVote = Some type then
           let review = decrement (Some type) review
           in Inr (review\<lparr>userVotes := Map_delete userUUID (userVotes review)\<rparr>)
         else
           let review = decrement currentVote review;
               review = increment (Some type) review
           in Inr (review\<lparr>userVotes := Map_set userUUID type (userVotes review)\<rparr>))
      else
        let review = increment (Some type) review
        in Inr (review\<lparr>userVotes := Map_set userUUID type (userVotes review)\<rparr>))"

definition post_reviews_usefulness ::
  "storage \<Rightarrow> string option \<Rightarrow> string option \<Rightarrow> string option \<Rightarrow>
     store \<Rightarrow> (failure + review) \<times> store" where
  "post_reviews_usefulness io reviewId userUUID type db =
     (if falsy userUUID \<or> falsy type \<or> \<not> Array_includes [''like'', ''dislike'', ''remove''] type
      then (Inl Invalid_input, db)
      else if io = Read_throws then (Inl Failed_to_update_review_usefulness, db)
      else
        (case findById reviewId db of
           None \<Rightarrow> (Inl Review_not_found, db)
         | Some review \<Rightarrow>
             (case usefulness_update (the userUUID) (the type) review of
                Inl e \<Rightarrow> (Inl e, db)
              | Inr updatedReview \<Rightarrow>
                  if io = Write_throws then (Inl Failed_to_update_review_usefulness, db)
                  else (Inr updatedReview, save updatedReview db))))"

subsection \<open>POST /api/reviews/:id/vote\<close>

text \<open>
  The ladder on \<^verbatim>\<open>voteType\<close> raises one counter of the document or leaves with an
  error; the document is then written, and the answer is the pair of its two counters.
\<close>

definition post_reviews_vote ::
  "storage \<Rightarrow> string \<Rightarrow> string option \<Rightarrow> store \<Rightarrow> (failure + int \<times> int) \<times> store" where
  "post_reviews_vote io id' voteType db =
     (if io = Read_throws then (Inl Failed_to_update_vote, db)
      else
        (case findById (Some id') db of
           None \<Rightarrow> (Inl Review_not_found, db)
         | Some review \<Rightarrow>
             (case (if voteType = Some ''like''
                    then Inr (review\<lparr>thumbsUp := thumbsUp review + 1\<rparr>)
                    else if voteType = Some ''dislike''
                    then Inr (review\<lparr>thumbsDown := thumbsDown review + 1\<rparr>)
                    else Inl Invalid_vote_type) of
                Inl e \<Rightarrow> (Inl e, db)
              | Inr review \<Rightarrow>
                  if io = Write_throws then (Inl Failed_to_update_vote, db)
                  else (Inr (thumbsUp review, thumbsDown review), save review db))))"

subsection \<open>Sequences of usefulness votes\<close>

text \<open>
  One call of the usefulness route: the behaviour of the storage layer during the call
  and the three fields of the body. \<open>vote\<close> is the store after a call, whatever the
  answer, and \<open>votes\<close> the store after a sequence of calls served one after the other.
\<close>

record call =
  call_storage :: storage
  call_reviewId :: "string option"
  call_userUUID :: "string option"
  call_type :: "string option"

definition vote :: "store \<Rightarrow> call \<Rightarrow> store" where
  "vote db c =
     snd (post_reviews_usefulness (call_storage c) (call_reviewId c) (call_userUUID c)
            (call_type c) db)"

definition votes :: "call list \<Rightarrow> store \<Rightarrow> store" where
  "votes cs db = foldl vote db cs"

subsection \<open>The transition table of the specification\<close>

text \<open>
  The specification gives the vote as a table over the vote a user holds (none,
  \<open>like\<close> or \<open>dislike\<close>) and the action requested, with the vote held afterwards and
  the change of each counter. \<open>spec_applyVote\<close> is that table, cell by cell, in the
  specification's words; the handler above is compared with it below.
\<close>

datatype vote_state = Like | Dislike

datatype requested_action = Request_like | Request_dislike | Request_remove

fun state_literal :: "vote_state \<Rightarrow> string" where
  "state_literal Like = ''like''"
| "state_literal Dislike = ''dislike''"

fun action_literal :: "requested_action \<Rightarrow> string" where
  "action_literal Request_like = ''like''"
| "action_literal Request_dislike = ''dislike''"
| "action_literal Request_remove = ''remove''"

fun spec_applyVote ::
  "vote_state option \<Rightarrow> requested_action \<Rightarrow> error_kind + (vote_state option \<times> int \<times> int)" where
  "spec_applyVote None Request_like = Inr (Some Like, 1, 0)"
| "spec_applyVote None Request_dislike = Inr (Some Dislike, 0, 1)"
| "spec_applyVote None Request_remove = Inl NothingToRemove"
| "spec_applyVote (Some Like) Request_like = Inr (None, - 1, 0)"
| "spec_applyVote (Some Like) Request_dislike = Inr (Some Dislike, - 1, 1)"
| "spec_applyVote (Some Like) Request_remove = Inr (None, - 1, 0)"
| "spec_applyVote (Some Dislike) Request_like = Inr (Some Like, 1, - 1)"
| "spec_applyVote (Some Dislike) Request_dislike = Inr (None, 0, - 1)"
| "spec_applyVote (Some Dislike) Request_remove = Inr (None, 0, - 1)"

subsection \<open>Documents of the examples\<close>

text \<open>
  A review as the creation route stores it, the same review after user \<open>u1\<close> has liked
  it, and after user \<open>u2\<close> has then disliked it; and a call of the usefulness route by
  user \<open>u1\<close> on that review.
\<close>

definition created_review :: review where
  "created_review = new_Review ''r1'' ''Quiet'' ''Runs cool'' 5 ''Tower'' ''product''"

definition liked_review :: review where
  "liked_review = created_review\<lparr>thumbsUp := 1, userVotes := [(''u1'', ''like'')]\<rparr>"

definition two_votes_review :: review where
  "two_votes_review =
     liked_review\<lparr>thumbsDown := 1, userVotes := [(''u1'', ''like''), (''u2'', ''dislike'')]\<rparr>"

definition u1_sends :: "string \<Rightarrow> call" where
  "u1_sends t =
     \<lparr>call_storage = Responds, call_reviewId = Some ''r1'', call_userUUID = Some ''u1'',
      call_type = Some t\<rparr>"

section \<open>Properties\<close>

subsection \<open>The vote map\<close>

lemma Map_get_set: "Map_get k' (Map_set k v m) = (if k' = k then Some v else Map_get k' m)"
  by (induction m) auto

lemma Map_get_delete: "Map_get k' (Map_delete k m) = (if k' = k then None else Map_get k' m)"
  by (induction m) auto

text \<open>
  The keys that hold a value are finitely many, and \<open>count\<close> is their number. Setting
  and deleting an entry move it by at most 1.
\<close>

lemma Map_get_keys: "Map_get k m = Some v \<Longrightarrow> k \<in> set (map fst m)"
  by (induction m) (auto split: if_splits)

lemma count_card: "count v m = card {k. Map_get k m = Some v}"
proof -
  have "count v m = length (remdups (filter (\<lambda>k. Map_get k m = Some v) (map fst m)))"
    by (simp add: count_def remdups_filter)
  also have "\<dots> = card (set (filter (\<lambda>k. Map_get k m = Some v) (map fst m)))"
    by (simp only: card_set)
  also have "set (filter (\<lambda>k. Map_get k m = Some v) (map fst m)) = {k. Map_get k m = Some v}"
    using Map_get_keys by auto
  finally show ?thesis .
qed

lemma finite_voters: "finite {k. Map_get k m = Some v}"
proof (rule finite_subset)
  show "{k. Map_get k m = Some v} \<subseteq> set (map fst m)"
    using Map_get_keys by auto
qed simp

lemma voters_set:
  "{k'. Map_get k' (Map_set k t m) = Some v} =
     (if t = v then insert k {k'. Map_get k' m = Some v} else {k'. Map_get k' m = Some v} - {k})"
  by (auto simp: Map_get_set)

lemma voters_delete:
  "{k'. Map_get k' (Map_delete k m) = Some v} = {k'. Map_get k' m = Some v} - {k}"
  by (auto simp: Map_get_delete)

lemma count_pos: "Map_get k m = Some v \<Longrightarrow> 0 < count v m"
  unfolding count_card using finite_voters [of m v] by (auto simp: card_gt_0_iff)

lemma count_set:
  "int (count v (Map_set k t m)) =
     int (count v m) + (if t = v then 1 else 0) - (if Map_get k m = Some v then 1 else 0)"
  using finite_voters [of m v] count_pos [of k m v]
  by (auto simp: count_card voters_set card_insert_if card_Diff_singleton_if)

lemma count_delete:
  "int (count v (Map_delete k m)) = int (count v m) - (if Map_get k m = Some v then 1 else 0)"
  using finite_voters [of m v] count_pos [of k m v]
  by (auto simp: count_card voters_delete card_Diff_singleton_if)

text \<open>Setting the entry of a new key and deleting it gives the map back.\<close>

lemma Map_delete_set_new: "Map_get k m = None \<Longrightarrow> Map_delete k (Map_set k v m) = m"
  by (induction m) (auto split: if_splits)

text \<open>
  A \<^verbatim>\<open>Map\<close> has one entry for a key. On such a list \<open>count\<close> is the number of
  entries with the value, and the two methods that write keep the keys distinct.
\<close>

lemma Map_get_distinct:
  "distinct (map fst m) \<Longrightarrow> (k, x) \<in> set m \<Longrightarrow> Map_get k m = Some x"
  by (induction m) (auto simp: rev_image_eqI)

lemma count_entries:
  assumes "distinct (map fst m)"
  shows "count v m = length (filter (\<lambda>(k, x). x = v) m)"
proof -
  have "count v m = length (filter (\<lambda>k. Map_get k m = Some v) (map fst m))"
    using assms by (simp add: count_def distinct_remdups_id)
  also have "\<dots> = length (filter (\<lambda>p. Map_get (fst p) m = Some v) m)"
    by (simp add: filter_map comp_def)
  also have "filter (\<lambda>p. Map_get (fst p) m = Some v) m = filter (\<lambda>(k, x). x = v) m"
    using Map_get_distinct [OF assms] by (intro filter_cong) auto
  finally show ?thesis .
qed

lemma Map_set_keys: "fst ` set (Map_set k v m) = insert k (fst ` set m)"
  by (induction m) (auto simp: rev_image_eqI split: if_splits)

lemma distinct_Map_set: "distinct (map fst m) \<Longrightarrow> distinct (map fst (Map_set k v m))"
  by (induction m) (auto simp: Map_set_keys rev_image_eqI)

lemma Map_delete_keys: "fst ` set (Map_delete k m) = fst ` set m - {k}"
  by (induction m) (auto simp: rev_image_eqI split: if_splits)

lemma distinct_Map_delete: "distinct (map fst m) \<Longrightarrow> distinct (map fst (Map_delete k m))"
  by (induction m) (auto simp: Map_delete_keys rev_image_eqI)

subsection \<open>The store\<close>

lemma findById_ident: "findById (Some i) db = Some r \<Longrightarrow> ident r = i"
  by (auto simp: findById_def find_Some_iff)

lemma findById_save:
  "findById (Some i) (save r' db) =
     (if ident r' = i then map_option (\<lambda>_. r') (findById (Some i) db) else findById (Some i) db)"
  by (induction db) (auto simp: findById_def save_def)

lemma findById_created: "findById (Some ''r1'') [created_review] = Some created_review"
  by (simp add: findById_def created_review_def new_Review_def)

lemma findById_liked: "findById (Some ''r1'') [liked_review] = Some liked_review"
  by (simp add: findById_def liked_review_def created_review_def new_Review_def)

subsection \<open>The documents of the examples\<close>

lemma count_inv_created: "count_inv created_review"
  by (simp add: count_inv_def count_def created_review_def new_Review_def)

lemma count_inv_liked: "count_inv liked_review"
  by (simp add: count_inv_def count_def liked_review_def created_review_def new_Review_def)

lemma Map_get_created: "Map_get ''u1'' (userVotes created_review) = None"
  by (simp add: created_review_def new_Review_def)

subsection \<open>The vote on a document\<close>

lemma usefulness_update_count_inv:
  "count_inv review \<Longrightarrow> usefulness_update u t review = Inr review' \<Longrightarrow> count_inv review'"
  by (auto simp: usefulness_update_def count_inv_def Let_def decrement_def increment_def
      falsy_def count_set count_delete split: if_splits option.splits)

lemma count_inv_non_negative: "count_inv review \<Longrightarrow> non_negative review"
  by (simp add: count_inv_def non_negative_def)

lemma usefulness_update_frame:
  "usefulness_update u t r = Inr r' \<Longrightarrow>
     ident r' = ident r \<and> title r' = title r \<and> content r' = content r \<and> rating r' = rating r \<and>
     productName r' = productName r \<and> reviewType r' = reviewType r"
  by (auto simp: usefulness_update_def Let_def decrement_def increment_def split: if_splits)

lemma usefulness_update_others:
  "usefulness_update u t r = Inr r' \<Longrightarrow> u' \<noteq> u \<Longrightarrow>
     Map_get u' (userVotes r') = Map_get u' (userVotes r)"
  by (auto simp: usefulness_update_def Let_def decrement_def increment_def
      Map_get_set Map_get_delete split: if_splits)

lemma usefulness_update_distinct:
  "distinct (map fst (userVotes r)) \<Longrightarrow> usefulness_update u t r = Inr r' \<Longrightarrow>
     distinct (map fst (userVotes r'))"
  by (auto simp: usefulness_update_def Let_def decrement_def increment_def
      distinct_Map_set distinct_Map_delete split: if_splits)

subsection \<open>The usefulness route\<close>

lemma usefulness_responds:
  assumes "findById (Some i) db = Some r" "u \<noteq> []" "t \<in> {''like'', ''dislike'', ''remove''}"
  shows "post_reviews_usefulness Responds (Some i) (Some u) (Some t) db =
           (case usefulness_update u t r of Inl e \<Rightarrow> (Inl e, db) | Inr r' \<Rightarrow> (Inr r', save r' db))"
  using assms
  by (auto simp: post_reviews_usefulness_def falsy_def Array_includes_def split: sum.splits)

lemma post_reviews_usefulness_ok:
  assumes "post_reviews_usefulness s reviewId' userUUID' type' db = (Inr r', db')"
  shows "\<exists>i u t r. reviewId' = Some i \<and> userUUID' = Some u \<and> type' = Some t \<and> u \<noteq> [] \<and>
      t \<in> {''like'', ''dislike'', ''remove''} \<and> s = Responds \<and>
      findById (Some i) db = Some r \<and> usefulness_update u t r = Inr r' \<and> db' = save r' db"
  using assms
  by (cases reviewId'; cases userUUID'; cases type'; cases s)
    (auto simp: post_reviews_usefulness_def falsy_def Array_includes_def findById_def
      split: sum.splits option.splits if_splits)

text \<open>What a call does to the store: nothing, or it saves an updated document.\<close>

lemma post_reviews_usefulness_cases:
  "(\<exists>e. post_reviews_usefulness s reviewId' userUUID' type' db = (Inl e, db)) \<or>
   (\<exists>i u t r r'. reviewId' = Some i \<and> userUUID' = Some u \<and> type' = Some t \<and>
      findById (Some i) db = Some r \<and> usefulness_update u t r = Inr r' \<and>
      post_reviews_usefulness s reviewId' userUUID' type' db = (Inr r', save r' db))"
  by (cases reviewId'; cases userUUID'; cases type')
    (auto simp: post_reviews_usefulness_def falsy_def Array_includes_def findById_def
      split: sum.splits option.splits)

lemma vote_count_inv:
  assumes "findById (Some i) db = Some r" "count_inv r"
  shows "\<exists>r'. findById (Some i) (vote db c) = Some r' \<and> count_inv r'"
proof -
  let ?res = "post_reviews_usefulness (call_storage c) (call_reviewId c) (call_userUUID c)
      (call_type c) db"
  from post_reviews_usefulness_cases [of "call_storage c" "call_reviewId c" "call_userUUID c" "call_type c" db]
  consider (err) e where "?res = (Inl e, db)"
    | (ok) j u t rj r' where "findById (Some j) db = Some rj" "usefulness_update u t rj = Inr r'"
        "?res = (Inr r', save r' db)"
    by blast
  then show ?thesis
  proof cases
    case err
    then show ?thesis using assms by (simp add: vote_def)
  next
    case ok
    have idj: "ident r' = j"
      using usefulness_update_frame [OF ok(2)] findById_ident [OF ok(1)] by simp
    show ?thesis
    proof (cases "j = i")
      case True
      then have "rj = r" using ok(1) assms(1) by simp
      then have "count_inv r'" using ok(2) assms(2) usefulness_update_count_inv by blast
      then show ?thesis using ok(3) idj True assms(1) by (simp add: vote_def findById_save)
    next
      case False
      then show ?thesis using ok(3) idj assms by (simp add: vote_def findById_save)
    qed
  qed
qed

lemma votes_count_inv:
  "findById (Some i) db = Some r \<Longrightarrow> count_inv r \<Longrightarrow>
     \<exists>r'. findById (Some i) (votes cs db) = Some r' \<and> count_inv r'"
proof (induction cs arbitrary: db r)
  case Nil
  then show ?case by (simp add: votes_def)
next
  case (Cons c cs)
  from vote_count_inv [OF Cons.prems] obtain r1
    where "findById (Some i) (vote db c) = Some r1" "count_inv r1" by blast
  from Cons.IH [OF this] show ?case by (simp add: votes_def)
qed

lemma u2_dislikes:
  "post_reviews_usefulness Responds (Some ''r1'') (Some ''u2'') (Some ''dislike'') [liked_review]
     = (Inr two_votes_review, [two_votes_review])"
proof -
  have "usefulness_update ''u2'' ''dislike'' liked_review = Inr two_votes_review"
    by (simp add: usefulness_update_def falsy_def increment_def two_votes_review_def
        liked_review_def created_review_def new_Review_def)
  then show ?thesis
    using usefulness_responds [OF findById_liked, of "''u2''" "''dislike''"]
    by (simp add: save_def two_votes_review_def)
qed

text \<open>
  The scenario of the specification: one review without votes, and user \<open>u1\<close> sends
  like, dislike, remove and remove again.
\<close>

lemma scenario:
  "votes [u1_sends ''like''] [created_review]
     = [created_review\<lparr>thumbsUp := 1, userVotes := [(''u1'', ''like'')]\<rparr>]"
  "votes [u1_sends ''like'', u1_sends ''dislike''] [created_review]
     = [created_review\<lparr>thumbsDown := 1, userVotes := [(''u1'', ''dislike'')]\<rparr>]"
  "votes [u1_sends ''like'', u1_sends ''dislike'', u1_sends ''remove''] [created_review]
     = [created_review]"
  "votes [u1_sends ''like'', u1_sends ''dislike'', u1_sends ''remove'', u1_sends ''remove'']
      [created_review] = [created_review]"
  by (simp_all add: votes_def vote_def u1_sends_def post_reviews_usefulness_def
      usefulness_update_def falsy_def Array_includes_def findById_def save_def
      increment_def decrement_def created_review_def new_Review_def)

section \<open>The claims\<close>

text \<open>
  C1. The usefulness vote implements the transition table of the specification. For a
  review that is stored, a user identifier that is not empty, each of the three vote
  states the user can hold (none, like, dislike) and each of the three actions (like,
  dislike, remove): where the table gives an error, the handler answers an error of that
  kind and the store is unchanged; where the table gives a new vote state and two deltas,
  the handler answers the updated review and stores it, the user's entry is the new state,
  and each counter has moved by its delta. So the vote already held is removed and its
  counter is decremented, the opposite vote moves 1 from the old counter to the new one, a
  first vote increments its counter, and remove clears a vote and decrements its counter.
\<close>

theorem usefulness_implements_table:
  assumes "findById (Some i) db = Some review" and "u \<noteq> []"
    and "Map_get u (userVotes review) = map_option state_literal currentVote"
  shows "case spec_applyVote currentVote a of
           Inl k \<Rightarrow>
             \<exists>e. post_reviews_usefulness Responds (Some i) (Some u) (Some (action_literal a)) db
                    = (Inl e, db) \<and> kind e = k
         | Inr (newVote, dUp, dDown) \<Rightarrow>
             \<exists>review'.
               post_reviews_usefulness Responds (Some i) (Some u) (Some (action_literal a)) db
                 = (Inr review', save review' db) \<and>
               findById (Some i) (save review' db) = Some review' \<and>
               Map_get u (userVotes review') = map_option state_literal newVote \<and>
               thumbsUp review' = thumbsUp review + dUp \<and>
               thumbsDown review' = thumbsDown review + dDown"
proof -
  have lit: "action_literal a \<in> {''like'', ''dislike'', ''remove''}"
    by (cases a) simp_all
  have step: "post_reviews_usefulness Responds (Some i) (Some u) (Some (action_literal a)) db =
      (case usefulness_update u (action_literal a) review of
         Inl e \<Rightarrow> (Inl e, db) | Inr r' \<Rightarrow> (Inr r', save r' db))"
    using assms(1,2) lit by (rule usefulness_responds)
  have idt: "ident review = i"
    using assms(1) by (rule findById_ident)
  show ?thesis
  proof (cases currentVote)
    case None
    then show ?thesis
      using assms(1,3) idt step
      by (cases a)
        (auto simp: usefulness_update_def falsy_def increment_def decrement_def
          Map_get_set Map_get_delete findById_save)
  next
    case (Some v)
    then show ?thesis
      using assms(1,3) idt step
      by (cases v; cases a)
        (auto simp: usefulness_update_def falsy_def increment_def decrement_def
          Map_get_set Map_get_delete findById_save)
  qed
qed

theorem usefulness_implements_table_witness:
  "findById (Some ''r1'') [liked_review] = Some liked_review \<and> ''u1'' \<noteq> [] \<and>
   Map_get ''u1'' (userVotes liked_review) = map_option state_literal (Some Like) \<and>
   (\<exists>review'.
      post_reviews_usefulness Responds (Some ''r1'') (Some ''u1'') (Some ''dislike'') [liked_review]
        = (Inr review', save review' [liked_review]) \<and>
      findById (Some ''r1'') (save review' [liked_review]) = Some review' \<and>
      Map_get ''u1'' (userVotes review') = Some ''dislike'' \<and>
      thumbsUp review' = 0 \<and> thumbsDown review' = 1)"
proof -
  have h2: "''u1'' \<noteq> []"
    by simp
  have h3: "Map_get ''u1'' (userVotes liked_review) = map_option state_literal (Some Like)"
    by (simp add: liked_review_def)
  have up: "thumbsUp liked_review = 1" and down: "thumbsDown liked_review = 0"
    by (simp_all add: liked_review_def created_review_def new_Review_def)
  show ?thesis
    using usefulness_implements_table [OF findById_liked h2 h3, of Request_dislike]
      findById_liked h3
    by (simp add: up down)
qed

text \<open>
  C2, as it is stated, covers every vote operation of the API. The plain increment route
  is one of them, and it breaks the invariant: on a stored review without votes, which
  satisfies the invariant, the request with vote type like succeeds and leaves
  \<open>thumbsUp = 1\<close> with no entry in \<open>userVotes\<close>.
\<close>

theorem increment_breaks_count_inv:
  "findById (Some ''r1'') [created_review] = Some created_review \<and> count_inv created_review \<and>
   post_reviews_vote Responds ''r1'' (Some ''like'') [created_review]
     = (Inr (1, 0), [created_review\<lparr>thumbsUp := 1\<rparr>]) \<and>
   \<not> count_inv (created_review\<lparr>thumbsUp := 1\<rparr>)"
  by (simp add: post_reviews_vote_def findById_def save_def count_inv_def count_def
      created_review_def new_Review_def)

text \<open>
  C2, amended. For every stored review whose counters equal the numbers of like and of
  dislike entries of its \<open>userVotes\<close>, the same equalities hold of the review after any
  sequence of calls of the usefulness route (calls by any user, on any review, with any
  action; a call that is answered by an error leaves the store as it is).
\<close>

theorem usefulness_votes_keep_count_inv:
  assumes "findById (Some i) db = Some review" and "count_inv review"
  shows "\<exists>review'. findById (Some i) (votes cs db) = Some review' \<and> count_inv review'"
  using assms by (rule votes_count_inv)

theorem usefulness_votes_keep_count_inv_witness:
  "findById (Some ''r1'') [created_review] = Some created_review \<and> count_inv created_review \<and>
   (\<exists>review'. findById (Some ''r1'')
        (votes [u1_sends ''like'', u1_sends ''dislike'', u1_sends ''remove'', u1_sends ''remove'']
           [created_review]) = Some review' \<and> count_inv review')"
  using usefulness_votes_keep_count_inv [OF findById_created count_inv_created]
    findById_created count_inv_created
  by simp

text \<open>
  C3. For every stored review that satisfies the count invariant: a vote on it, by any
  user and with any action, that yields an updated document yields one with both counters
  at least 0; the review has both counters at least 0 after any call of the usefulness
  route; and it has both counters at least 0 after any sequence of such calls.
\<close>

theorem counters_never_negative:
  assumes "findById (Some i) db = Some review" and "count_inv review"
  shows "(\<forall>u t review'. usefulness_update u t review = Inr review' \<longrightarrow> non_negative review') \<and>
         (\<exists>review'. findById (Some i) (vote db c) = Some review' \<and> non_negative review') \<and>
         (\<exists>review'. findById (Some i) (votes cs db) = Some review' \<and> non_negative review')"
proof (intro conjI allI impI)
  fix u t review'
  assume "usefulness_update u t review = Inr review'"
  with assms(2) have "count_inv review'" by (rule usefulness_update_count_inv)
  then show "non_negative review'" by (rule count_inv_non_negative)
next
  from vote_count_inv [OF assms]
  show "\<exists>review'. findById (Some i) (vote db c) = Some review' \<and> non_negative review'"
    using count_inv_non_negative by blast
next
  from votes_count_inv [OF assms]
  show "\<exists>review'. findById (Some i) (votes cs db) = Some review' \<and> non_negative review'"
    using count_inv_non_negative by blast
qed

theorem counters_never_negative_witness:
  "findById (Some ''r1'') [liked_review] = Some liked_review \<and> count_inv liked_review \<and>
   usefulness_update ''u1'' ''remove'' liked_review
     = Inr (liked_review\<lparr>thumbsUp := 0, userVotes := []\<rparr>) \<and>
   non_negative (liked_review\<lparr>thumbsUp := 0, userVotes := []\<rparr>) \<and>
   (\<exists>review'. findById (Some ''r1'') (vote [liked_review] (u1_sends ''like'')) = Some review' \<and>
      non_negative review') \<and>
   (\<exists>review'. findById (Some ''r1'')
        (votes [u1_sends ''like'', u1_sends ''remove'', u1_sends ''dislike''] [liked_review])
          = Some review' \<and> non_negative review')"
proof -
  have upd: "usefulness_update ''u1'' ''remove'' liked_review
      = Inr (liked_review\<lparr>thumbsUp := 0, userVotes := []\<rparr>)"
    by (simp add: usefulness_update_def falsy_def decrement_def liked_review_def
        created_review_def new_Review_def)
  show ?thesis
    using counters_never_negative [OF findById_liked count_inv_liked,
        of "u1_sends ''like''"
          "[u1_sends ''like'', u1_sends ''remove'', u1_sends ''dislike'']"]
      findById_liked count_inv_liked upd
    by simp
qed

text \<open>
  C4, as it is stated, counts \<open>reviewId\<close> among the fields whose absence is an invalid
  input. The guard of the handler does not test it: a request without \<open>reviewId\<close>, with
  a user and the action like, reaches the lookup and is answered by "Review not found",
  which is of kind \<open>NotFound\<close>.
\<close>

theorem missing_reviewId_is_not_found:
  "post_reviews_usefulness Responds None (Some ''u1'') (Some ''like'') [created_review]
     = (Inl Review_not_found, [created_review]) \<and> kind Review_not_found \<noteq> InvalidInput"
  by (simp add: post_reviews_usefulness_def falsy_def Array_includes_def findById_def)

text \<open>
  C4, amended. For every request of the usefulness route in which the action is not one of
  the three literals like, dislike, remove (an absent action included), or in which the
  user identifier is absent or empty, the answer is the error "Invalid input", of kind
  \<open>InvalidInput\<close>, and the store is unchanged, whatever the storage layer does. A request
  with a user identifier and one of the three actions but without \<open>reviewId\<close> is
  answered, when the storage layer responds, by the error "Review not found", of kind
  \<open>NotFound\<close>, and the store is unchanged.
\<close>

theorem invalid_input_rejected:
  "(type' \<notin> {Some ''like'', Some ''dislike'', Some ''remove''} \<or> userUUID' = None \<or>
      userUUID' = Some [] \<longrightarrow>
      post_reviews_usefulness s reviewId' userUUID' type' db = (Inl Invalid_input, db) \<and>
      kind Invalid_input = InvalidInput) \<and>
   (type' \<in> {Some ''like'', Some ''dislike'', Some ''remove''} \<and> userUUID' = Some u \<and> u \<noteq> [] \<longrightarrow>
      post_reviews_usefulness Responds None userUUID' type' db = (Inl Review_not_found, db) \<and>
      kind Review_not_found = NotFound)"
  by (cases type'; cases userUUID')
    (auto simp: post_reviews_usefulness_def falsy_def Array_includes_def findById_def)

theorem invalid_input_rejected_witness:
  "Some ''upvote'' \<notin> {Some ''like'', Some ''dislike'', Some ''remove''} \<and>
   post_reviews_usefulness Responds (Some ''r1'') (Some ''u1'') (Some ''upvote'') [created_review]
     = (Inl Invalid_input, [created_review]) \<and>
   kind Invalid_input = InvalidInput \<and>
   Some ''like'' \<in> {Some ''like'', Some ''dislike'', Some ''remove''} \<and> ''u1'' \<noteq> [] \<and>
   post_reviews_usefulness Responds None (Some ''u1'') (Some ''like'') [created_review]
     = (Inl Review_not_found, [created_review]) \<and>
   kind Review_not_found = NotFound"
  using invalid_input_rejected [of "Some ''upvote''" "Some ''u1''" Responds "Some ''r1''"
      "[created_review]" "''u1''"]
    invalid_input_rejected [of "Some ''like''" "Some ''u1''" Responds None
      "[created_review]" "''u1''"]
  by simp

text \<open>
  C5. For every stored review and every user (a user identifier that is not empty) without
  an entry in its \<open>userVotes\<close>, the action remove is answered by the error "No vote to
  remove", of kind \<open>NothingToRemove\<close>, and the store is unchanged. And after a remove that
  succeeded, the same remove sent again on the store it left is answered by that error and
  leaves that store unchanged.
\<close>

theorem remove_without_vote:
  "(findById (Some i) db = Some review \<and> u \<noteq> [] \<and> Map_get u (userVotes review) = None \<longrightarrow>
      post_reviews_usefulness Responds (Some i) (Some u) (Some ''remove'') db
        = (Inl No_vote_to_remove, db) \<and>
      kind No_vote_to_remove = NothingToRemove) \<and>
   (post_reviews_usefulness Responds reviewId' userUUID' (Some ''remove'') db = (Inr review', db') \<longrightarrow>
      post_reviews_usefulness Responds reviewId' userUUID' (Some ''remove'') db'
        = (Inl No_vote_to_remove, db'))"
proof -
  have first: "post_reviews_usefulness Responds (Some i) (Some u) (Some ''remove'') db
        = (Inl No_vote_to_remove, db)"
    if "findById (Some i) db = Some review" "u \<noteq> []" "Map_get u (userVotes review) = None"
    using that by (simp add: usefulness_responds usefulness_update_def falsy_def)
  have second: "post_reviews_usefulness Responds reviewId' userUUID' (Some ''remove'') db'
        = (Inl No_vote_to_remove, db')"
    if ok: "post_reviews_usefulness Responds reviewId' userUUID' (Some ''remove'') db
        = (Inr review', db')"
  proof -
    from post_reviews_usefulness_ok [OF ok] obtain j v r
      where f: "reviewId' = Some j" "userUUID' = Some v" "v \<noteq> []"
        "findById (Some j) db = Some r" "usefulness_update v ''remove'' r = Inr review'"
        "db' = save review' db"
      by auto
    have "ident review' = j"
      using usefulness_update_frame [OF f(5)] findById_ident [OF f(4)] by simp
    then have found: "findById (Some j) db' = Some review'"
      using f(4,6) by (simp add: findById_save)
    have "Map_get v (userVotes review') = None"
      using f(5) by (auto simp: usefulness_update_def Let_def Map_get_delete split: if_splits)
    then have "usefulness_update v ''remove'' review' = Inl No_vote_to_remove"
      by (simp add: usefulness_update_def falsy_def)
    then show ?thesis
      using f(1,2,3) found by (simp add: usefulness_responds)
  qed
  show ?thesis
    using first second by simp
qed

theorem remove_without_vote_witness:
  "findById (Some ''r1'') [created_review] = Some created_review \<and> ''u1'' \<noteq> [] \<and>
   Map_get ''u1'' (userVotes created_review) = None \<and>
   post_reviews_usefulness Responds (Some ''r1'') (Some ''u1'') (Some ''remove'') [created_review]
     = (Inl No_vote_to_remove, [created_review]) \<and>
   kind No_vote_to_remove = NothingToRemove \<and>
   post_reviews_usefulness Responds (Some ''r1'') (Some ''u1'') (Some ''remove'') [liked_review]
     = (Inr (liked_review\<lparr>thumbsUp := 0, userVotes := []\<rparr>),
        [liked_review\<lparr>thumbsUp := 0, userVotes := []\<rparr>]) \<and>
   post_reviews_usefulness Responds (Some ''r1'') (Some ''u1'') (Some ''remove'')
       [liked_review\<lparr>thumbsUp := 0, userVotes := []\<rparr>]
     = (Inl No_vote_to_remove, [liked_review\<lparr>thumbsUp := 0, userVotes := []\<rparr>])"
proof -
  have upd: "usefulness_update ''u1'' ''remove'' liked_review
      = Inr (liked_review\<lparr>thumbsUp := 0, userVotes := []\<rparr>)"
    by (simp add: usefulness_update_def falsy_def decrement_def liked_review_def
        created_review_def new_Review_def)
  have ok: "post_reviews_usefulness Responds (Some ''r1'') (Some ''u1'') (Some ''remove'')
      [liked_review]
     = (Inr (liked_review\<lparr>thumbsUp := 0, userVotes := []\<rparr>),
        [liked_review\<lparr>thumbsUp := 0, userVotes := []\<rparr>])"
    using usefulness_responds [OF findById_liked, of "''u1''" "''remove''"]
    by (simp add: upd save_def)
  show ?thesis
    using remove_without_vote [where i = "''r1''" and db = "[created_review]"
        and review = created_review and u = "''u1''"]
      remove_without_vote [where db = "[liked_review]" and reviewId' = "Some ''r1''"
        and userUUID' = "Some ''u1''"
        and review' = "liked_review\<lparr>thumbsUp := 0, userVotes := []\<rparr>"
        and db' = "[liked_review\<lparr>thumbsUp := 0, userVotes := []\<rparr>]"]
      findById_created Map_get_created ok
    by simp
qed

text \<open>
  C6, the toggle law. For every stored review and every user without an entry in its
  \<open>userVotes\<close>, the action like succeeds and records like; the action like sent again
  succeeds, and the review then has no entry for the user and both counters at the values
  they had at the start.
\<close>

theorem toggle_law:
  assumes "findById (Some i) db = Some review" and "u \<noteq> []"
    and "Map_get u (userVotes review) = None"
  shows "\<exists>r1 r2.
     post_reviews_usefulness Responds (Some i) (Some u) (Some ''like'') db = (Inr r1, save r1 db) \<and>
     Map_get u (userVotes r1) = Some ''like'' \<and>
     post_reviews_usefulness Responds (Some i) (Some u) (Some ''like'') (save r1 db)
       = (Inr r2, save r2 (save r1 db)) \<and>
     findById (Some i) (save r2 (save r1 db)) = Some r2 \<and>
     Map_get u (userVotes r2) = None \<and>
     thumbsUp r2 = thumbsUp review \<and> thumbsDown r2 = thumbsDown review"
proof -
  define r1 where "r1 = review\<lparr>thumbsUp := thumbsUp review + 1,
    userVotes := Map_set u ''like'' (userVotes review)\<rparr>"
  define r2 where "r2 = r1\<lparr>thumbsUp := thumbsUp r1 - 1,
    userVotes := Map_delete u (userVotes r1)\<rparr>"
  have idt: "ident review = i"
    using assms(1) by (rule findById_ident)
  have u1: "usefulness_update u ''like'' review = Inr r1"
    using assms(3) by (simp add: usefulness_update_def falsy_def increment_def r1_def)
  have s1: "post_reviews_usefulness Responds (Some i) (Some u) (Some ''like'') db = (Inr r1, save r1 db)"
    using assms(1,2) u1 by (simp add: usefulness_responds)
  have f1: "findById (Some i) (save r1 db) = Some r1"
    using assms(1) idt by (simp add: findById_save r1_def)
  have g1: "Map_get u (userVotes r1) = Some ''like''"
    by (simp add: r1_def Map_get_set)
  have u2: "usefulness_update u ''like'' r1 = Inr r2"
    using g1 by (simp add: usefulness_update_def falsy_def decrement_def r2_def)
  have s2: "post_reviews_usefulness Responds (Some i) (Some u) (Some ''like'') (save r1 db)
       = (Inr r2, save r2 (save r1 db))"
    using f1 assms(2) u2 by (simp add: usefulness_responds)
  have f2: "findById (Some i) (save r2 (save r1 db)) = Some r2"
    using f1 idt by (simp add: findById_save r2_def r1_def)
  have "Map_get u (userVotes r2) = None \<and> thumbsUp r2 = thumbsUp review \<and>
      thumbsDown r2 = thumbsDown review"
    by (simp add: r2_def r1_def Map_get_delete)
  with s1 g1 s2 f2 show ?thesis by blast
qed

theorem toggle_law_witness:
  "findById (Some ''r1'') [created_review] = Some created_review \<and> ''u1'' \<noteq> [] \<and>
   Map_get ''u1'' (userVotes created_review) = None \<and>
   (\<exists>r1 r2.
     post_reviews_usefulness Responds (Some ''r1'') (Some ''u1'') (Some ''like'') [created_review]
       = (Inr r1, save r1 [created_review]) \<and>
     Map_get ''u1'' (userVotes r1) = Some ''like'' \<and>
     post_reviews_usefulness Responds (Some ''r1'') (Some ''u1'') (Some ''like'')
         (save r1 [created_review])
       = (Inr r2, save r2 (save r1 [created_review])) \<and>
     findById (Some ''r1'') (save r2 (save r1 [created_review])) = Some r2 \<and>
     Map_get ''u1'' (userVotes r2) = None \<and>
     thumbsUp r2 = 0 \<and> thumbsDown r2 = 0)"
proof -
  have h2: "''u1'' \<noteq> []"
    by simp
  have z: "thumbsUp created_review = 0" "thumbsDown created_review = 0"
    by (simp_all add: created_review_def new_Review_def)
  show ?thesis
    using toggle_law [OF findById_created h2 Map_get_created] findById_created Map_get_created
    by (simp add: z)
qed

text \<open>
  C7, the switch law. For every stored review and every user without an entry in its
  \<open>userVotes\<close>, the action like succeeds and records like; the action dislike then
  succeeds, and the review records dislike for the user, with \<open>thumbsUp\<close> at the value
  it had at the start and \<open>thumbsDown\<close> 1 above the value it had at the start.
\<close>

theorem switch_law:
  assumes "findById (Some i) db = Some review" and "u \<noteq> []"
    and "Map_get u (userVotes review) = None"
  shows "\<exists>r1 r2.
     post_reviews_usefulness Responds (Some i) (Some u) (Some ''like'') db = (Inr r1, save r1 db) \<and>
     Map_get u (userVotes r1) = Some ''like'' \<and>
     post_reviews_usefulness Responds (Some i) (Some u) (Some ''dislike'') (save r1 db)
       = (Inr r2, save r2 (save r1 db)) \<and>
     findById (Some i) (save r2 (save r1 db)) = Some r2 \<and>
     Map_get u (userVotes r2) = Some ''dislike'' \<and>
     thumbsUp r2 = thumbsUp review \<and> thumbsDown r2 = thumbsDown review + 1"
proof -
  define r1 where "r1 = review\<lparr>thumbsUp := thumbsUp review + 1,
    userVotes := Map_set u ''like'' (userVotes review)\<rparr>"
  define r2 where "r2 = r1\<lparr>thumbsUp := thumbsUp r1 - 1, thumbsDown := thumbsDown r1 + 1,
    userVotes := Map_set u ''dislike'' (userVotes r1)\<rparr>"
  have idt: "ident review = i"
    using assms(1) by (rule findById_ident)
  have u1: "usefulness_update u ''like'' review = Inr r1"
    using assms(3) by (simp add: usefulness_update_def falsy_def increment_def r1_def)
  have s1: "post_reviews_usefulness Responds (Some i) (Some u) (Some ''like'') db = (Inr r1, save r1 db)"
    using assms(1,2) u1 by (simp add: usefulness_responds)
  have f1: "findById (Some i) (save r1 db) = Some r1"
    using assms(1) idt by (simp add: findById_save r1_def)
  have g1: "Map_get u (userVotes r1) = Some ''like''"
    by (simp add: r1_def Map_get_set)
  have u2: "usefulness_update u ''dislike'' r1 = Inr r2"
    using g1 by (simp add: usefulness_update_def falsy_def decrement_def increment_def r2_def)
  have s2: "post_reviews_usefulness Responds (Some i) (Some u) (Some ''dislike'') (save r1 db)
       = (Inr r2, save r2 (save r1 db))"
    using f1 assms(2) u2 by (simp add: usefulness_responds)
  have f2: "findById (Some i) (save r2 (save r1 db)) = Some r2"
    using f1 idt by (simp add: findById_save r2_def r1_def)
  have "Map_get u (userVotes r2) = Some ''dislike'' \<and> thumbsUp r2 = thumbsUp review \<and>
      thumbsDown r2 = thumbsDown review + 1"
    by (simp add: r2_def r1_def Map_get_set)
  with s1 g1 s2 f2 show ?thesis by blast
qed

theorem switch_law_witness:
  "findById (Some ''r1'') [created_review] = Some created_review \<and> ''u1'' \<noteq> [] \<and>
   Map_get ''u1'' (userVotes created_review) = None \<and>
   (\<exists>r1 r2.
     post_reviews_usefulness Responds (Some ''r1'') (Some ''u1'') (Some ''like'') [created_review]
       = (Inr r1, save r1 [created_review]) \<and>
     Map_get ''u1'' (userVotes r1) = Some ''like'' \<and>
     post_reviews_usefulness Responds (Some ''r1'') (Some ''u1'') (Some ''dislike'')
         (save r1 [created_review])
       = (Inr r2, save r2 (save r1 [created_review])) \<and>
     findById (Some ''r1'') (save r2 (save r1 [created_review])) = Some r2 \<and>
     Map_get ''u1'' (userVotes r2) = Some ''dislike'' \<and>
     thumbsUp r2 = 0 \<and> thumbsDown r2 = 1)"
proof -
  have h2: "''u1'' \<noteq> []"
    by simp
  have z: "thumbsUp created_review = 0" "thumbsDown created_review = 0"
    by (simp_all add: created_review_def new_Review_def)
  show ?thesis
    using switch_law [OF findById_created h2 Map_get_created] findById_created Map_get_created
    by (simp add: z)
qed

text \<open>
  C8. The plain increment is a route of its own. For every stored review, the vote type
  like is answered by the two counters with \<open>thumbsUp\<close> 1 higher and the vote type
  dislike by the two counters with \<open>thumbsDown\<close> 1 higher; the review is stored with
  that counter changed and with \<open>userVotes\<close> as it was. Every other vote type, an absent
  one included, is answered by the error "Invalid vote type", of kind \<open>InvalidInput\<close>, and
  the store is unchanged.
\<close>

theorem simple_increment:
  assumes "findById (Some i) db = Some review"
  shows "(\<exists>review'.
            post_reviews_vote Responds i (Some ''like'') db
              = (Inr (thumbsUp review', thumbsDown review'), save review' db) \<and>
            findById (Some i) (save review' db) = Some review' \<and>
            thumbsUp review' = thumbsUp review + 1 \<and> thumbsDown review' = thumbsDown review \<and>
            userVotes review' = userVotes review) \<and>
         (\<exists>review'.
            post_reviews_vote Responds i (Some ''dislike'') db
              = (Inr (thumbsUp review', thumbsDown review'), save review' db) \<and>
            findById (Some i) (save review' db) = Some review' \<and>
            thumbsUp review' = thumbsUp review \<and> thumbsDown review' = thumbsDown review + 1 \<and>
            userVotes review' = userVotes review) \<and>
         (voteType \<notin> {Some ''like'', Some ''dislike''} \<longrightarrow>
            post_reviews_vote Responds i voteType db = (Inl Invalid_vote_type, db) \<and>
            kind Invalid_vote_type = InvalidInput)"
proof -
  have idt: "ident review = i"
    using assms by (rule findById_ident)
  have "post_reviews_vote Responds i (Some ''like'') db
      = (Inr (thumbsUp review + 1, thumbsDown review),
         save (review\<lparr>thumbsUp := thumbsUp review + 1\<rparr>) db)"
    using assms by (simp add: post_reviews_vote_def)
  moreover have "findById (Some i) (save (review\<lparr>thumbsUp := thumbsUp review + 1\<rparr>) db)
      = Some (review\<lparr>thumbsUp := thumbsUp review + 1\<rparr>)"
    using assms idt by (simp add: findById_save)
  ultimately have like: "\<exists>review'.
            post_reviews_vote Responds i (Some ''like'') db
              = (Inr (thumbsUp review', thumbsDown review'), save review' db) \<and>
            findById (Some i) (save review' db) = Some review' \<and>
            thumbsUp review' = thumbsUp review + 1 \<and> thumbsDown review' = thumbsDown review \<and>
            userVotes review' = userVotes review"
    by (intro exI [of _ "review\<lparr>thumbsUp := thumbsUp review + 1\<rparr>"]) simp
  have "post_reviews_vote Responds i (Some ''dislike'') db
      = (Inr (thumbsUp review, thumbsDown review + 1),
         save (review\<lparr>thumbsDown := thumbsDown review + 1\<rparr>) db)"
    using assms by (simp add: post_reviews_vote_def)
  moreover have "findById (Some i) (save (review\<lparr>thumbsDown := thumbsDown review + 1\<rparr>) db)
      = Some (review\<lparr>thumbsDown := thumbsDown review + 1\<rparr>)"
    using assms idt by (simp add: findById_save)
  ultimately have dislike: "\<exists>review'.
            post_reviews_vote Responds i (Some ''dislike'') db
              = (Inr (thumbsUp review', thumbsDown review'), save review' db) \<and>
            findById (Some i) (save review' db) = Some review' \<and>
            thumbsUp review' = thumbsUp review \<and> thumbsDown review' = thumbsDown review + 1 \<and>
            userVotes review' = userVotes review"
    by (intro exI [of _ "review\<lparr>thumbsDown := thumbsDown review + 1\<rparr>"]) simp
  have other: "voteType \<notin> {Some ''like'', Some ''dislike''} \<longrightarrow>
            post_reviews_vote Responds i voteType db = (Inl Invalid_vote_type, db) \<and>
            kind Invalid_vote_type = InvalidInput"
    using assms by (simp add: post_reviews_vote_def)
  from like dislike other show ?thesis by blast
qed

theorem simple_increment_witness:
  "findById (Some ''r1'') [liked_review] = Some liked_review \<and>
   (\<exists>review'.
      post_reviews_vote Responds ''r1'' (Some ''like'') [liked_review]
        = (Inr (thumbsUp review', thumbsDown review'), save review' [liked_review]) \<and>
      findById (Some ''r1'') (save review' [liked_review]) = Some review' \<and>
      thumbsUp review' = 2 \<and> thumbsDown review' = 0 \<and>
      userVotes review' = [(''u1'', ''like'')]) \<and>
   (\<exists>review'.
      post_reviews_vote Responds ''r1'' (Some ''dislike'') [liked_review]
        = (Inr (thumbsUp review', thumbsDown review'), save review' [liked_review]) \<and>
      findById (Some ''r1'') (save review' [liked_review]) = Some review' \<and>
      thumbsUp review' = 1 \<and> thumbsDown review' = 1 \<and>
      userVotes review' = [(''u1'', ''like'')]) \<and>
   Some ''upvote'' \<notin> {Some ''like'', Some ''dislike''} \<and>
   post_reviews_vote Responds ''r1'' (Some ''upvote'') [liked_review]
     = (Inl Invalid_vote_type, [liked_review]) \<and>
   kind Invalid_vote_type = InvalidInput"
proof -
  have z: "thumbsUp liked_review = 1" "thumbsDown liked_review = 0"
    "userVotes liked_review = [(''u1'', ''like'')]"
    by (simp_all add: liked_review_def created_review_def new_Review_def)
  show ?thesis
    using simple_increment [OF findById_liked, of "Some ''upvote''"] findById_liked
    by (simp add: z)
qed

text \<open>
  C9, as it is stated, creates a review for every submission that supplies the four
  fields. The guard of the handler tests them with \<^verbatim>\<open>!\<close>, which also holds of the
  rating 0 and of an empty text: a submission that supplies a title, a content, the rating
  0 and a product is answered by "Missing required fields", and nothing is stored.
\<close>

theorem zero_rating_rejected:
  "post_reviews Responds ''r2'' (Some ''Quiet'') (Some ''Runs cool'') (Some 0) (Some ''Tower'') []
     = (Inl Missing_required_fields, [])"
  by (simp add: post_reviews_def falsy_def falsy_number_def)

text \<open>
  C9, amended. For every submission in which the title, the content or the product is
  absent or empty, or the rating is absent or 0, the answer is the error "Missing required
  fields", of kind \<open>InvalidInput\<close>, and the store is unchanged. For every submission with
  a title, a content and a product that are not empty and a rating that is not 0, when the
  storage layer responds, a review with these four values is added to the store, with
  \<open>thumbsUp\<close> and \<open>thumbsDown\<close> 0 and no entry in \<open>userVotes\<close>.
\<close>

theorem creation_requires_fields:
  "(title' \<in> {None, Some []} \<or> content' \<in> {None, Some []} \<or> rating' \<in> {None, Some 0} \<or>
      product \<in> {None, Some []} \<longrightarrow>
      post_reviews s newId title' content' rating' product db = (Inl Missing_required_fields, db) \<and>
      kind Missing_required_fields = InvalidInput) \<and>
   (t \<noteq> [] \<and> c \<noteq> [] \<and> n \<noteq> 0 \<and> p \<noteq> [] \<longrightarrow>
      (\<exists>review.
         post_reviews Responds newId (Some t) (Some c) (Some n) (Some p) db
           = (Inr review, db @ [review]) \<and>
         ident review = newId \<and> title review = t \<and> content review = c \<and> rating review = n \<and>
         productName review = p \<and>
         thumbsUp review = 0 \<and> thumbsDown review = 0 \<and> userVotes review = []))"
  by (auto simp: post_reviews_def falsy_def falsy_number_def save_new_def new_Review_def Let_def)

theorem creation_requires_fields_witness:
  "Some (0::int) \<in> {None, Some 0} \<and>
   post_reviews Responds ''r2'' (Some ''Quiet'') (Some ''Runs cool'') (Some 0) (Some ''Tower'')
       [created_review]
     = (Inl Missing_required_fields, [created_review]) \<and>
   kind Missing_required_fields = InvalidInput \<and>
   ''Quiet'' \<noteq> [] \<and> ''Runs cool'' \<noteq> [] \<and> (5::int) \<noteq> 0 \<and> ''Tower'' \<noteq> [] \<and>
   (\<exists>review.
      post_reviews Responds ''r2'' (Some ''Quiet'') (Some ''Runs cool'') (Some 5) (Some ''Tower'')
          [created_review]
        = (Inr review, [created_review] @ [review]) \<and>
      ident review = ''r2'' \<and> title review = ''Quiet'' \<and> content review = ''Runs cool'' \<and>
      rating review = 5 \<and> productName review = ''Tower'' \<and>
      thumbsUp review = 0 \<and> thumbsDown review = 0 \<and> userVotes review = [])"
  using creation_requires_fields [of "Some ''Quiet''" "Some ''Runs cool''" "Some 0"
      "Some ''Tower''" Responds "''r2''" "[created_review]" "''Quiet''" "''Runs cool''" 5
      "''Tower''"]
  by simp

text \<open>
  C10, the frame of the usefulness vote. For every call of the usefulness route that
  succeeds, by user \<open>u\<close> on a review: the review was stored under the identifier of the
  request, the store afterwards is the store with that review replaced by the answer, the
  answer has the identifier, title, content, rating, product name and review type of the
  review, the entry of every user other than \<open>u\<close> is the same in its \<open>userVotes\<close>, and
  the review of every other identifier is the same in the store.
\<close>

theorem usefulness_frame:
  assumes "post_reviews_usefulness s reviewId' userUUID' type' db = (Inr review', db')"
  shows "\<exists>i u review.
           reviewId' = Some i \<and> userUUID' = Some u \<and> findById (Some i) db = Some review \<and>
           db' = save review' db \<and> findById (Some i) db' = Some review' \<and>
           ident review' = ident review \<and> title review' = title review \<and>
           content review' = content review \<and> rating review' = rating review \<and>
           productName review' = productName review \<and> reviewType review' = reviewType review \<and>
           (\<forall>u'. u' \<noteq> u \<longrightarrow> Map_get u' (userVotes review') = Map_get u' (userVotes review)) \<and>
           (\<forall>j. j \<noteq> i \<longrightarrow> findById (Some j) db' = findById (Some j) db)"
proof -
  from post_reviews_usefulness_ok [OF assms] obtain i u t review
    where f: "reviewId' = Some i" "userUUID' = Some u"
      "findById (Some i) db = Some review" "usefulness_update u t review = Inr review'"
      "db' = save review' db"
    by blast
  note frame = usefulness_update_frame [OF f(4)]
  have idt: "ident review' = i"
    using frame findById_ident [OF f(3)] by simp
  have found: "findById (Some i) db' = Some review'"
    using f(3,5) idt by (simp add: findById_save)
  have others: "\<forall>u'. u' \<noteq> u \<longrightarrow> Map_get u' (userVotes review') = Map_get u' (userVotes review)"
    using usefulness_update_others [OF f(4)] by blast
  have rest: "\<forall>j. j \<noteq> i \<longrightarrow> findById (Some j) db' = findById (Some j) db"
    using f(5) idt by (simp add: findById_save)
  from f(1,2,3,5) found frame others rest show ?thesis by blast
qed

theorem usefulness_frame_witness:
  "post_reviews_usefulness Responds (Some ''r1'') (Some ''u2'') (Some ''dislike'') [liked_review]
     = (Inr two_votes_review, [two_votes_review]) \<and>
   (\<exists>i u review.
      Some ''r1'' = Some i \<and> Some ''u2'' = Some u \<and>
      findById (Some i) [liked_review] = Some review \<and>
      [two_votes_review] = save two_votes_review [liked_review] \<and>
      findById (Some i) [two_votes_review] = Some two_votes_review \<and>
      ident two_votes_review = ident review \<and> title two_votes_review = title review \<and>
      content two_votes_review = content review \<and> rating two_votes_review = rating review \<and>
      productName two_votes_review = productName review \<and>
      reviewType two_votes_review = reviewType review \<and>
      (\<forall>u'. u' \<noteq> u \<longrightarrow>
         Map_get u' (userVotes two_votes_review) = Map_get u' (userVotes review)) \<and>
      (\<forall>j. j \<noteq> i \<longrightarrow> findById (Some j) [two_votes_review] = findById (Some j) [liked_review]))"
  using u2_dislikes usefulness_frame [OF u2_dislikes] by (rule conjI)

end
